theory Spec2Isabelle
  imports Complex_Main "HOL-Library.Sublist"
begin

section \<open>Data model of the OAuth2 plugin (src/index.ts)\<close>

text \<open>
  JavaScript numbers are modelled as rationals: the claims below only compare, add and
  divide them by 1000, and the rounding of IEEE doubles is not part of the model.
\<close>

type_synonym number = rat

text \<open>\<^verbatim>\<open>TUrlParams = Record<string, string | number | boolean>\<close>\<close>

datatype url_param = PString string | PNumber number | PBoolean bool

type_synonym TUrlParams = "string \<rightharpoonup> url_param"

record TOAuth2Url =
  url :: string
  params :: TUrlParams

record TOAuth2Provider =
  auth :: TOAuth2Url
  token :: TOAuth2Url
  clientId :: string
  clientSecret :: string

record TOAuth2Profile =
  scope :: "string list"
  provider :: TOAuth2Provider

text \<open>
  The stored access token. Its \<^verbatim>\<open>scope\<close> field is named \<open>token_scope\<close> here, the
  name \<open>scope\<close> being taken by the profile.
\<close>

record TOAuth2AccessToken =
  token_type :: string
  token_scope :: string
  expires_in :: number
  access_token :: string
  created_at :: number

text \<open>
  The JSON object a token endpoint answers with, before the handler fills in its defaults:
  \<^verbatim>\<open>expires_in\<close> and \<^verbatim>\<open>created_at\<close> may be missing (\<open>None\<close>, what \<^verbatim>\<open>??\<close> treats
  as nullish).
\<close>

record token_response =
  resp_token_type :: string
  resp_scope :: string
  resp_expires_in :: "number option"
  resp_access_token :: string
  resp_created_at :: "number option"

text \<open>
  The plugin parameters. \<open>profiles\<close> holds the own enumerable properties of the
  \<^verbatim>\<open>profiles\<close> object in the order of \<^verbatim>\<open>Object.keys\<close>; \<open>profiles_proto\<close> holds the
  property names the object inherits through its prototype chain, which the \<^verbatim>\<open>in\<close>
  operator consults as well. The optional strings are \<open>None\<close> when left undefined. The
  \<^verbatim>\<open>state\<close> and \<^verbatim>\<open>storage\<close> parameters are part of the environment below.
\<close>

record TPluginParams =
  profiles :: "(string \<times> TOAuth2Profile) list"
  profiles_proto :: "string list"
  login :: "string option"
  authorized :: "string option"
  logout :: "string option"
  host :: "string option"
  redirectTo :: "string option"

text \<open>
  The property names of \<^verbatim>\<open>Object.prototype\<close>, which every object written as a literal
  inherits.
\<close>

definition object_prototype_keys :: "string list" where
  "object_prototype_keys =
     [''constructor'', ''hasOwnProperty'', ''isPrototypeOf'', ''propertyIsEnumerable'',
      ''toLocaleString'', ''toString'', ''valueOf'', ''__proto__'',
      ''__defineGetter__'', ''__defineSetter__'', ''__lookupGetter__'', ''__lookupSetter__'']"

text \<open>The request of the outbound \<^verbatim>\<open>fetch\<close> and the parts of its response the handler reads.\<close>

record fetch_init =
  http_method :: string
  headers :: "(string \<times> string) list"
  body :: TUrlParams

record http_response =
  status :: nat
  statusText :: string
  content_type :: "string option"
  body_text :: string
  body_json :: "token_response option"

text \<open>
  What a route handler produces: a response it returns or an error it throws.
  Modelled from the spec: \<^verbatim>\<open>redirect\<close> of \<^verbatim>\<open>./utils\<close> is not among the sources; the spec
  says it responds with an HTTP redirect to the given URL, kept here as \<open>Redirect\<close>.
\<close>

datatype response = Response string nat string | Redirect string

datatype error = Error string | TypeError | SyntaxError

datatype outcome = Returned response | Thrown error

text \<open>
  The collaborators of one request: the CSRF state store, the token store, \<^verbatim>\<open>fetch\<close>
  and the clock answer as these functions say, and every call the engine makes to them is
  recorded, in order, in a trace of \<open>call\<close>s. \<^verbatim>\<open>buildUrl\<close> of \<^verbatim>\<open>./utils\<close> is not among
  the sources and is taken as a parameter.
\<close>

datatype 'r call =
    StateGenerate 'r string
  | StateCheck 'r string string
  | StorageSet 'r string TOAuth2AccessToken
  | StorageGet 'r string
  | StorageDelete 'r string
  | Fetch string fetch_init

record 'r environment =
  state_generate :: "'r \<Rightarrow> string \<Rightarrow> string"
  state_check :: "'r \<Rightarrow> string \<Rightarrow> string \<Rightarrow> bool"
  storage_get :: "'r \<Rightarrow> string \<Rightarrow> TOAuth2AccessToken option"
  fetch :: "string \<Rightarrow> fetch_init \<Rightarrow> http_response"
  date_now :: number
  buildUrl :: "string \<Rightarrow> TUrlParams \<Rightarrow> string list \<Rightarrow> string"

text \<open>\<^verbatim>\<open>req.query as { code: string; state: string }\<close>\<close>

record callback_query =
  code :: string
  state :: string

text \<open>\<^verbatim>\<open>{ login: string; logout: string }\<close>, an entry of the map \<^verbatim>\<open>profiles()\<close> returns.\<close>

record profile_urls =
  login_uri :: string
  logout_uri :: string

text \<open>
  The object \<^verbatim>\<open>profiles()\<close> returns, an object literal filled by assignment: its own
  properties, and the object that an assignment to \<^verbatim>\<open>__proto__\<close> made its prototype
  (\<open>None\<close> while the prototype is still \<^verbatim>\<open>Object.prototype\<close>).
\<close>

record profile_url_map =
  own_entries :: "string \<rightharpoonup> profile_urls"
  proto_entry :: "profile_urls option"

section \<open>Configuration defaults and URI construction\<close>

text \<open>\<^verbatim>\<open>if (!x) { x = d }\<close>: an undefined or empty string takes the default.\<close>

definition or_default :: "string option \<Rightarrow> string \<Rightarrow> string" where
  "or_default v d = (case v of None \<Rightarrow> d | Some s \<Rightarrow> if s = [] then d else s)"

definition login_path :: "TPluginParams \<Rightarrow> string" where
  "login_path cfg = or_default (login cfg) ''/login/:name''"

definition authorized_path :: "TPluginParams \<Rightarrow> string" where
  "authorized_path cfg = or_default (authorized cfg) ''/login/:name/authorized''"

definition logout_path :: "TPluginParams \<Rightarrow> string" where
  "logout_path cfg = or_default (logout cfg) ''/logout/:name''"

definition host_name :: "TPluginParams \<Rightarrow> string" where
  "host_name cfg = or_default (host cfg) ''localhost:3000''"

definition redirect_path :: "TPluginParams \<Rightarrow> string" where
  "redirect_path cfg = or_default (redirectTo cfg) ''/''"

text \<open>\<^verbatim>\<open>const protocol = host.startsWith('localhost') ? 'http' : 'https'\<close>\<close>

definition protocol :: "TPluginParams \<Rightarrow> string" where
  "protocol cfg = (if prefix ''localhost'' (host_name cfg) then ''http'' else ''https'')"

text \<open>
  \<^verbatim>\<open>String.prototype.replace\<close> with a string pattern: the first occurrence only, and the
  replacement text expands \<^verbatim>\<open>$$\<close>, \<^verbatim>\<open>$&\<close>, the text before the match (dollar, backtick)
  and the text after it (dollar, apostrophe); there are no captures, so any other dollar
  stays as it is. \<open>find_first\<close> splits the subject around the first occurrence.
\<close>

fun find_first :: "string \<Rightarrow> string \<Rightarrow> (string \<times> string) option" where
  "find_first pat [] = (if pat = [] then Some ([], []) else None)"
| "find_first pat (c # cs) =
     (if prefix pat (c # cs) then Some ([], drop (length pat) (c # cs))
      else map_option (\<lambda>(b, a). (c # b, a)) (find_first pat cs))"

fun get_substitution :: "string \<Rightarrow> string \<Rightarrow> string \<Rightarrow> string \<Rightarrow> string" where
  "get_substitution m b a [] = []"
| "get_substitution m b a [c] = [c]"
| "get_substitution m b a (c # d # rest) =
     (if c = CHR ''$'' \<and> d = CHR ''$'' then CHR ''$'' # get_substitution m b a rest
      else if c = CHR ''$'' \<and> d = CHR ''&'' then m @ get_substitution m b a rest
      else if c = CHR ''$'' \<and> d = CHR 0x60 then b @ get_substitution m b a rest
      else if c = CHR ''$'' \<and> d = CHR 0x27 then a @ get_substitution m b a rest
      else c # get_substitution m b a (d # rest))"

definition js_replace :: "string \<Rightarrow> string \<Rightarrow> string \<Rightarrow> string" where
  "js_replace s pat rep =
     (case find_first pat s of
        None \<Rightarrow> s
      | Some (b, a) \<Rightarrow> b @ get_substitution pat b a rep @ a)"

definition buildUri :: "TPluginParams \<Rightarrow> string \<Rightarrow> string \<Rightarrow> bool \<Rightarrow> string" where
  "buildUri cfg template name external =
     (let uri = js_replace template '':name'' name
      in if external then protocol cfg @ ''://'' @ host_name cfg @ uri else uri)"

definition buildLoginUri :: "TPluginParams \<Rightarrow> string \<Rightarrow> bool \<Rightarrow> string" where
  "buildLoginUri cfg name external = buildUri cfg (login_path cfg) name external"

definition buildLogoutUri :: "TPluginParams \<Rightarrow> string \<Rightarrow> bool \<Rightarrow> string" where
  "buildLogoutUri cfg name external = buildUri cfg (logout_path cfg) name external"

definition buildRedirectUri :: "TPluginParams \<Rightarrow> string \<Rightarrow> string" where
  "buildRedirectUri cfg name = buildUri cfg (authorized_path cfg) name True"

section \<open>Provider resolver\<close>

text \<open>
  \<^verbatim>\<open>name in globalProfiles\<close> holds for an own property and for an inherited one;
  \<^verbatim>\<open>globalProfiles[name]\<close> is then the profile, or the inherited value, which is no
  profile (\<open>Inherited\<close>: destructuring it gives an undefined \<^verbatim>\<open>provider\<close>).
\<close>

datatype resolved = NotFound response | Profile TOAuth2Profile | Inherited

definition js_in :: "string \<Rightarrow> TPluginParams \<Rightarrow> bool" where
  "js_in name cfg = (name \<in> set (map fst (profiles cfg)) \<or> name \<in> set (profiles_proto cfg))"

definition resolveProvider :: "TPluginParams \<Rightarrow> string \<Rightarrow> resolved" where
  "resolveProvider cfg name =
     (if \<not> js_in name cfg then NotFound (Response [] 404 ''Not Found'')
      else case map_of (profiles cfg) name of
             Some p \<Rightarrow> Profile p
           | None \<Rightarrow> Inherited)"

section \<open>The three route handlers\<close>

text \<open>
  Each handler yields its outcome together with the trace of the calls it made to the
  collaborators. The arguments are the request object, \<^verbatim>\<open>req.params.name\<close> and, for
  the callback, \<^verbatim>\<open>req.query\<close>.
\<close>

definition authParams :: "TPluginParams \<Rightarrow> TOAuth2Provider \<Rightarrow> string \<Rightarrow> string \<Rightarrow> TUrlParams" where
  "authParams cfg prov name st =
     [''client_id'' \<mapsto> PString (clientId prov),
      ''client_secret'' \<mapsto> PString (clientSecret prov),
      ''redirect_uri'' \<mapsto> PString (buildRedirectUri cfg name),
      ''response_type'' \<mapsto> PString ''code'',
      ''response_mode'' \<mapsto> PString ''query'',
      ''state'' \<mapsto> PString st]"

text \<open>\<^verbatim>\<open>{ ...authParams, ...provider.auth.params }\<close>: the later spread overrides.\<close>

definition login_url_params :: "TPluginParams \<Rightarrow> TOAuth2Provider \<Rightarrow> string \<Rightarrow> string \<Rightarrow> TUrlParams" where
  "login_url_params cfg prov name st = authParams cfg prov name st ++ params (auth prov)"

definition login_route :: "TPluginParams \<Rightarrow> 'r environment \<Rightarrow> 'r \<Rightarrow> string \<Rightarrow> outcome \<times> 'r call list" where
  "login_route cfg env req name =
     (case resolveProvider cfg name of
        NotFound r \<Rightarrow> (Returned r, [])
      | Inherited \<Rightarrow> (Thrown TypeError, [])
      | Profile p \<Rightarrow>
          (let st = state_generate env req name;
               authUrl = buildUrl env (url (auth (provider p)))
                           (login_url_params cfg (provider p) name st) (scope p)
           in (Returned (Redirect authUrl), [StateGenerate req name])))"

definition tokenParams :: "TPluginParams \<Rightarrow> TOAuth2Provider \<Rightarrow> string \<Rightarrow> string \<Rightarrow> TUrlParams" where
  "tokenParams cfg prov name c =
     [''client_id'' \<mapsto> PString (clientId prov),
      ''client_secret'' \<mapsto> PString (clientSecret prov),
      ''redirect_uri'' \<mapsto> PString (buildRedirectUri cfg name),
      ''grant_type'' \<mapsto> PString ''authorization_code'',
      ''code'' \<mapsto> PString c]"

text \<open>
  \<^verbatim>\<open>new URLSearchParams({ ...tokenParams, ...provider.token.params })\<close>: the entries of
  the request body, before \<^verbatim>\<open>toString()\<close> writes them form-encoded.
\<close>

definition token_body_params :: "TPluginParams \<Rightarrow> TOAuth2Provider \<Rightarrow> string \<Rightarrow> string \<Rightarrow> TUrlParams" where
  "token_body_params cfg prov name c = tokenParams cfg prov name c ++ params (token prov)"

definition token_request :: "TPluginParams \<Rightarrow> TOAuth2Provider \<Rightarrow> string \<Rightarrow> string \<Rightarrow> fetch_init" where
  "token_request cfg prov name c =
     \<lparr>http_method = ''POST'',
      headers = [(''Content-Type'', ''application/x-www-form-urlencoded''),
                 (''Accept'', ''application/json'')],
      body = token_body_params cfg prov name c\<rparr>"

text \<open>\<^verbatim>\<open>response.ok\<close>: the status is in the range 200 to 299.\<close>

definition response_ok :: "http_response \<Rightarrow> bool" where
  "response_ok r = (200 \<le> status r \<and> status r \<le> 299)"

text \<open>\<^verbatim>\<open>response.headers.get('Content-Type')?.startsWith('application/json')\<close>\<close>

definition json_content_type :: "http_response \<Rightarrow> bool" where
  "json_content_type r =
     (case content_type r of None \<Rightarrow> False | Some ct \<Rightarrow> prefix ''application/json'' ct)"

text \<open>The decimal digits of a status code, as the template literal writes it.\<close>

fun string_of_nat :: "nat \<Rightarrow> string" where
  "string_of_nat n =
     (if n < 10 then [''0123456789'' ! n]
      else string_of_nat (n div 10) @ [''0123456789'' ! (n mod 10)])"

declare string_of_nat.simps [simp del]

definition exchange_error :: "http_response \<Rightarrow> string" where
  "exchange_error r =
     string_of_nat (status r) @ '': '' @ statusText r @ '': '' @ body_text r"

text \<open>
  \<^verbatim>\<open>token.expires_in = token.expires_in ?? 3600; token.created_at = Date.now() / 1000\<close>
\<close>

definition stamp_token :: "number \<Rightarrow> token_response \<Rightarrow> TOAuth2AccessToken" where
  "stamp_token now_ms j =
     \<lparr>token_type = resp_token_type j,
      token_scope = resp_scope j,
      expires_in = (case resp_expires_in j of None \<Rightarrow> 3600 | Some e \<Rightarrow> e),
      access_token = resp_access_token j,
      created_at = now_ms / 1000\<rparr>"

definition authorized_route ::
  "TPluginParams \<Rightarrow> 'r environment \<Rightarrow> 'r \<Rightarrow> string \<Rightarrow> callback_query \<Rightarrow> outcome \<times> 'r call list" where
  "authorized_route cfg env req name q =
     (case resolveProvider cfg name of
        NotFound r \<Rightarrow> (Returned r, [])
      | ctx \<Rightarrow>
          if \<not> state_check env req name (state q)
          then (Thrown (Error ''State missmatch''), [StateCheck req name (state q)])
          else (case ctx of
              Profile p \<Rightarrow>
                (let init = token_request cfg (provider p) name (code q);
                     response = fetch env (url (token (provider p))) init;
                     calls = [StateCheck req name (state q),
                              Fetch (url (token (provider p))) init]
                 in if \<not> response_ok response \<or> \<not> json_content_type response
                    then (Thrown (Error (exchange_error response)), calls)
                    else (case body_json response of
                        None \<Rightarrow> (Thrown SyntaxError, calls)
                      | Some j \<Rightarrow>
                          (Returned (Redirect (redirect_path cfg)),
                           calls @ [StorageSet req name (stamp_token (date_now env) j)])))
            | _ \<Rightarrow> (Thrown TypeError, [StateCheck req name (state q)])))"

definition logout_route :: "TPluginParams \<Rightarrow> 'r environment \<Rightarrow> 'r \<Rightarrow> string \<Rightarrow> outcome \<times> 'r call list" where
  "logout_route cfg env req name =
     (case resolveProvider cfg name of
        NotFound r \<Rightarrow> (Returned r, [])
      | _ \<Rightarrow> (Returned (Redirect (redirect_path cfg)), [StorageDelete req name]))"

section \<open>The request capabilities\<close>

text \<open>
  Modelled from the spec: \<^verbatim>\<open>isTokenValid\<close> of \<^verbatim>\<open>./utils\<close> is not among the sources.
  The spec (4.2): an absent token is invalid; a present one is valid iff
  \<open>now < createdAt + expiresIn\<close>, with \<open>now\<close> the clock read at call time, in the unix
  seconds \<^verbatim>\<open>created_at\<close> is stamped in.
\<close>

definition isTokenValid :: "number \<Rightarrow> TOAuth2AccessToken option \<Rightarrow> bool" where
  "isTokenValid now t =
     (case t of None \<Rightarrow> False | Some tok \<Rightarrow> now < created_at tok + expires_in tok)"

definition token_ok :: "'r environment \<Rightarrow> 'r \<Rightarrow> string \<Rightarrow> bool" where
  "token_ok env req profile = isTokenValid (date_now env / 1000) (storage_get env req profile)"

text \<open>
  \<^verbatim>\<open>for (const profile of profiles) { if (!isTokenValid(await storage.get(ctx.request, profile))) return false } return true\<close>
\<close>

fun ctx_authorized :: "'r environment \<Rightarrow> 'r \<Rightarrow> string list \<Rightarrow> bool \<times> 'r call list" where
  "ctx_authorized env req [] = (True, [])"
| "ctx_authorized env req (profile # rest) =
     (if \<not> token_ok env req profile then (False, [StorageGet req profile])
      else (let (b, calls) = ctx_authorized env req rest
            in (b, StorageGet req profile # calls)))"

text \<open>
  \<^verbatim>\<open>result[profile] = value\<close> on that object: the name \<^verbatim>\<open>__proto__\<close> reaches the setter
  inherited from \<^verbatim>\<open>Object.prototype\<close>, which replaces the prototype and adds no own
  property; every other name becomes an own property.
\<close>

definition assign_entry :: "profile_url_map \<Rightarrow> string \<Rightarrow> profile_urls \<Rightarrow> profile_url_map" where
  "assign_entry res name v =
     (if name = ''__proto__'' then res\<lparr>proto_entry := Some v\<rparr>
      else res\<lparr>own_entries := (own_entries res)(name \<mapsto> v)\<rparr>)"

text \<open>
  \<^verbatim>\<open>profiles(...profiles)\<close>: with no argument, the keys of the configured profiles; the
  result object is filled by assignment, one entry per name.
\<close>

definition ctx_profiles :: "TPluginParams \<Rightarrow> string list \<Rightarrow> profile_url_map \<times> 'r call list" where
  "ctx_profiles cfg names =
     (let names' = (if length names = 0 then map fst (profiles cfg) else names);
          result = foldl (\<lambda>res profile.
                      assign_entry res profile
                        \<lparr>login_uri = buildLoginUri cfg profile True,
                         logout_uri = buildLogoutUri cfg profile True\<rparr>)
                    \<lparr>own_entries = Map.empty, proto_entry = None\<rparr> names'
      in (result, []))"

text \<open>Which calls of a trace write to the token store, and which are token exchanges.\<close>

fun is_storage_set :: "'r call \<Rightarrow> bool" where
  "is_storage_set (StorageSet r n t) = True"
| "is_storage_set c = False"

fun is_fetch :: "'r call \<Rightarrow> bool" where
  "is_fetch (Fetch u i) = True"
| "is_fetch c = False"

section \<open>A concrete configuration\<close>

text \<open>
  The profile of the spec's end-to-end example, configured as an object literal, with
  every optional parameter left to its default; collaborators that answer with fixed
  values; a store that holds one token, for the profile \<^verbatim>\<open>demo\<close>; a stand-in for
  \<^verbatim>\<open>buildUrl\<close> that writes the \<^verbatim>\<open>redirect_uri\<close> parameter it is given, and no other.
\<close>

definition demo_provider :: TOAuth2Provider where
  "demo_provider =
     \<lparr>auth = \<lparr>url = ''https://p/authorize'', params = Map.empty\<rparr>,
      token = \<lparr>url = ''https://p/token'', params = Map.empty\<rparr>,
      clientId = ''cid'',
      clientSecret = ''csec''\<rparr>"

definition demo_cfg :: TPluginParams where
  "demo_cfg =
     \<lparr>profiles = [(''demo'', \<lparr>scope = [''read''], provider = demo_provider\<rparr>)],
      profiles_proto = object_prototype_keys,
      login = None, authorized = None, logout = None, host = None, redirectTo = None\<rparr>"

definition demo_token :: TOAuth2AccessToken where
  "demo_token =
     \<lparr>token_type = ''bearer'', token_scope = ''read'', expires_in = 3600,
      access_token = ''tok'', created_at = 1700000000\<rparr>"

definition demo_env :: "bool \<Rightarrow> http_response \<Rightarrow> number \<Rightarrow> nat environment" where
  "demo_env chk resp now_ms =
     \<lparr>state_generate = (\<lambda>r n. ''S''),
      state_check = (\<lambda>r n s. chk),
      storage_get = (\<lambda>r n. if n = ''demo'' then Some demo_token else None),
      fetch = (\<lambda>u i. resp),
      date_now = now_ms,
      buildUrl = (\<lambda>u ps sc. case ps ''redirect_uri'' of
                              Some (PString s) \<Rightarrow> u @ ''?redirect_uri='' @ s
                            | _ \<Rightarrow> u)\<rparr>"

definition demo_query :: callback_query where
  "demo_query = \<lparr>code = ''abc123'', state = ''S''\<rparr>"

definition demo_json :: token_response where
  "demo_json =
     \<lparr>resp_token_type = ''bearer'', resp_scope = ''read'', resp_expires_in = None,
      resp_access_token = ''tok'', resp_created_at = Some 5\<rparr>"

definition demo_success :: http_response where
  "demo_success =
     \<lparr>status = 200, statusText = ''OK'', content_type = Some ''application/json; charset=utf-8'',
      body_text = ''{}'', body_json = Some demo_json\<rparr>"

definition demo_failure :: http_response where
  "demo_failure =
     \<lparr>status = 401, statusText = ''Unauthorized'', content_type = Some ''application/json'',
      body_text = ''bad_verification_code'', body_json = None\<rparr>"

text \<open>
  A provider whose extra token parameters carry a \<^verbatim>\<open>redirect_uri\<close> of their own.
\<close>

definition override_provider :: TOAuth2Provider where
  "override_provider =
     \<lparr>auth = \<lparr>url = ''https://p/authorize'', params = Map.empty\<rparr>,
      token = \<lparr>url = ''https://p/token'',
               params = [''redirect_uri'' \<mapsto> PString ''https://elsewhere/cb'']\<rparr>,
      clientId = ''cid'',
      clientSecret = ''csec''\<rparr>"

text \<open>Two more answers of a token endpoint, both with status 200.\<close>

definition demo_html :: http_response where
  "demo_html =
     \<lparr>status = 200, statusText = ''OK'', content_type = Some ''text/html'',
      body_text = ''<html></html>'', body_json = None\<rparr>"

definition demo_jsonp :: http_response where
  "demo_jsonp =
     \<lparr>status = 200, statusText = ''OK'', content_type = Some ''application/jsonp'',
      body_text = ''{}'', body_json = Some demo_json\<rparr>"

text \<open>
  A configuration that sets every optional parameter and has two profiles, the second
  with \<open>override_provider\<close>.
\<close>

definition custom_cfg :: TPluginParams where
  "custom_cfg =
     \<lparr>profiles = [(''demo'', \<lparr>scope = [''read''], provider = demo_provider\<rparr>),
                  (''hub'', \<lparr>scope = [], provider = override_provider\<rparr>)],
      profiles_proto = object_prototype_keys,
      login = Some ''/in/:name'', authorized = Some ''/cb/:name'', logout = Some ''/out/:name'',
      host = Some ''auth.example.com'', redirectTo = Some ''/home''\<rparr>"

text \<open>
  A configuration whose profiles object has an own property named \<^verbatim>\<open>__proto__\<close>, as
  \<^verbatim>\<open>JSON.parse\<close> or a computed key makes one.
\<close>

definition proto_cfg :: TPluginParams where
  "proto_cfg =
     \<lparr>profiles = [(''__proto__'', \<lparr>scope = [''read''], provider = demo_provider\<rparr>),
                  (''demo'', \<lparr>scope = [''read''], provider = demo_provider\<rparr>)],
      profiles_proto = object_prototype_keys,
      login = None, authorized = None, logout = None, host = None, redirectTo = None\<rparr>"

text \<open>Lower case of an ASCII letter; blanks.\<close>

definition lower_char :: "char \<Rightarrow> char" where
  "lower_char c =
     (case map_of (zip ''ABCDEFGHIJKLMNOPQRSTUVWXYZ'' ''abcdefghijklmnopqrstuvwxyz'') c of
        None \<Rightarrow> c
      | Some l \<Rightarrow> l)"

definition blank :: "char \<Rightarrow> bool" where
  "blank c = (c = CHR '' '' \<or> c = CHR 0x09)"

text \<open>
  The claim's words for a JSON content type, to compare \<open>json_content_type\<close> with: the
  header is present and its media type (the text before any parameter, without
  surrounding blanks, in lower case) is \<^verbatim>\<open>application/json\<close> or carries the structured
  suffix \<^verbatim>\<open>+json\<close>.
\<close>

definition media_type :: "string \<Rightarrow> string" where
  "media_type ct =
     map lower_char
       (rev (dropWhile blank (rev (dropWhile blank (takeWhile (\<lambda>c. c \<noteq> CHR '';'') ct)))))"

definition is_json_header :: "string option \<Rightarrow> bool" where
  "is_json_header h =
     (case h of
        None \<Rightarrow> False
      | Some ct \<Rightarrow> media_type ct = ''application/json'' \<or> suffix ''+json'' (media_type ct))"

text \<open>
  The spec's words for the protocol rule (4.4), to compare \<open>protocol\<close> with: the host, a
  domain with an optional port, denotes the local loopback name when its domain is
  \<^verbatim>\<open>localhost\<close>, in any case of the letters.
\<close>

definition denotes_loopback :: "string \<Rightarrow> bool" where
  "denotes_loopback h =
     (map lower_char (takeWhile (\<lambda>c. c \<noteq> CHR '':'') h) = ''localhost'')"

section \<open>Properties\<close>

lemma resolve_configured:
  "name \<in> set (map fst (profiles cfg)) \<Longrightarrow> \<exists>p. resolveProvider cfg name = Profile p"
proof -
  assume a: "name \<in> set (map fst (profiles cfg))"
  then obtain p where "map_of (profiles cfg) name = Some p"
    by (metis domD dom_map_of_conv_image_fst set_map)
  with a show ?thesis
    by (simp add: resolveProvider_def js_in_def)
qed

lemma resolve_own:
  "map_of (profiles cfg) name = Some p \<Longrightarrow> resolveProvider cfg name = Profile p"
proof -
  assume a: "map_of (profiles cfg) name = Some p"
  then have "name \<in> fst ` set (profiles cfg)"
    by (metis domI dom_map_of_conv_image_fst)
  with a show ?thesis
    by (simp add: resolveProvider_def js_in_def)
qed

text \<open>
  C1. In the callback phase, for a configured profile name, a CSRF state store whose
  \<^verbatim>\<open>check\<close> answers false makes the handler throw the error \<^verbatim>\<open>State missmatch\<close>; the
  only call made is that check, so the token store's \<^verbatim>\<open>set\<close> is never called.
\<close>

theorem csrf_mismatch_is_fatal:
  assumes "name \<in> set (map fst (profiles cfg))"
    and "\<not> state_check env req name (state q)"
  shows "authorized_route cfg env req name q =
           (Thrown (Error ''State missmatch''), [StateCheck req name (state q)])
         \<and> filter is_storage_set (snd (authorized_route cfg env req name q)) = []"
proof -
  from assms(1) obtain p where "resolveProvider cfg name = Profile p"
    using resolve_configured by blast
  with assms(2) show ?thesis
    by (simp add: authorized_route_def)
qed

theorem csrf_mismatch_is_fatal_witness:
  "''demo'' \<in> set (map fst (profiles demo_cfg))
   \<and> \<not> state_check (demo_env False demo_success 0) 7 ''demo'' (state demo_query)
   \<and> authorized_route demo_cfg (demo_env False demo_success 0) 7 ''demo'' demo_query =
       (Thrown (Error ''State missmatch''), [StateCheck 7 ''demo'' ''S''])
   \<and> filter is_storage_set
       (snd (authorized_route demo_cfg (demo_env False demo_success 0) 7 ''demo'' demo_query)) = []"
proof -
  have h1: "''demo'' \<in> set (map fst (profiles demo_cfg))"
    by (simp add: demo_cfg_def)
  have h2: "\<not> state_check (demo_env False demo_success 0) 7 ''demo'' (state demo_query)"
    by (simp add: demo_env_def)
  have q: "state demo_query = ''S''"
    by (simp add: demo_query_def)
  show ?thesis
    using h1 h2 csrf_mismatch_is_fatal [OF h1 h2] by (simp add: q)
qed

text \<open>
  C2, as stated, fails: the handler tests that the \<^verbatim>\<open>Content-Type\<close> header starts with
  \<^verbatim>\<open>application/json\<close>, so a response with status 200 and the content type
  \<^verbatim>\<open>application/jsonp\<close>, which is not JSON, raises no error: when its body parses, the
  handler redirects and calls the token store's \<^verbatim>\<open>set\<close>.
\<close>

theorem jsonp_accepted_counterexample:
  "\<not> is_json_header (content_type demo_jsonp)
   \<and> fst (authorized_route demo_cfg (demo_env True demo_jsonp 0) 7 ''demo'' demo_query) =
       Returned (Redirect ''/'')
   \<and> filter is_storage_set
       (snd (authorized_route demo_cfg (demo_env True demo_jsonp 0) 7 ''demo'' demo_query)) =
       [StorageSet 7 ''demo'' (stamp_token 0 demo_json)]"
proof -
  have n: "\<not> is_json_header (content_type demo_jsonp)"
    by (simp add: is_json_header_def media_type_def lower_char_def blank_def suffix_def
        demo_jsonp_def)
  have r: "resolveProvider demo_cfg ''demo'' = Profile \<lparr>scope = [''read''], provider = demo_provider\<rparr>"
    by (rule resolve_own) (simp add: demo_cfg_def)
  have f: "fetch (demo_env True demo_jsonp 0) u i = demo_jsonp" for u i
    by (simp add: demo_env_def)
  have c: "state_check (demo_env True demo_jsonp 0) 7 ''demo'' (state demo_query)"
    by (simp add: demo_env_def)
  have d: "date_now (demo_env True demo_jsonp 0) = 0"
    by (simp add: demo_env_def)
  have o: "response_ok demo_jsonp" "json_content_type demo_jsonp"
    "body_json demo_jsonp = Some demo_json"
    by (simp_all add: response_ok_def json_content_type_def demo_jsonp_def)
  have p: "redirect_path demo_cfg = ''/''"
    by (simp add: redirect_path_def or_default_def demo_cfg_def)
  have "authorized_route demo_cfg (demo_env True demo_jsonp 0) 7 ''demo'' demo_query =
          (Returned (Redirect ''/''),
           [StateCheck 7 ''demo'' (state demo_query),
            Fetch (url (token demo_provider))
              (token_request demo_cfg demo_provider ''demo'' (code demo_query)),
            StorageSet 7 ''demo'' (stamp_token 0 demo_json)])"
    by (simp add: authorized_route_def r f c d o p Let_def)
  with n show ?thesis
    by simp
qed

text \<open>
  C2, amended. In the callback phase, with the profile configured and the state accepted,
  a token endpoint response whose status is outside 200..299, or whose \<^verbatim>\<open>Content-Type\<close>
  header is missing or does not start with the text \<^verbatim>\<open>application/json\<close>, makes the
  handler throw an error whose message is the status, the status text and the body text,
  separated by a colon and a space. The trace holds the state check and one \<^verbatim>\<open>fetch\<close>:
  the exchange is not retried and the token store's \<^verbatim>\<open>set\<close> is not called.
\<close>

theorem exchange_failure_is_fatal:
  assumes "map_of (profiles cfg) name = Some p"
    and "state_check env req name (state q)"
    and "resp = fetch env (url (token (provider p))) (token_request cfg (provider p) name (code q))"
    and "\<not> response_ok resp \<or> \<not> json_content_type resp"
  shows "authorized_route cfg env req name q =
           (Thrown (Error (string_of_nat (status resp) @ '': '' @ statusText resp @ '': ''
                           @ body_text resp)),
            [StateCheck req name (state q),
             Fetch (url (token (provider p))) (token_request cfg (provider p) name (code q))])
         \<and> filter is_storage_set (snd (authorized_route cfg env req name q)) = []
         \<and> length (filter is_fetch (snd (authorized_route cfg env req name q))) = 1"
proof -
  have r: "resolveProvider cfg name = Profile p"
    using assms(1) by (rule resolve_own)
  have "authorized_route cfg env req name q =
          (Thrown (Error (exchange_error resp)),
           [StateCheck req name (state q),
            Fetch (url (token (provider p))) (token_request cfg (provider p) name (code q))])"
    using assms(2,3,4) by (auto simp add: authorized_route_def r Let_def)
  then show ?thesis
    by (simp add: exchange_error_def)
qed

lemma string_of_nat_401: "string_of_nat 401 = ''401''"
  by (simp add: string_of_nat.simps)

lemma string_of_nat_200: "string_of_nat 200 = ''200''"
  by (simp add: string_of_nat.simps)

theorem exchange_failure_is_fatal_witness:
  "map_of (profiles demo_cfg) ''demo'' = Some \<lparr>scope = [''read''], provider = demo_provider\<rparr>
   \<and> state_check (demo_env True demo_failure 0) 7 ''demo'' (state demo_query)
   \<and> \<not> response_ok demo_failure \<and> json_content_type demo_failure
   \<and> fst (authorized_route demo_cfg (demo_env True demo_failure 0) 7 ''demo'' demo_query) =
       Thrown (Error ''401: Unauthorized: bad_verification_code'')
   \<and> filter is_storage_set
       (snd (authorized_route demo_cfg (demo_env True demo_failure 0) 7 ''demo'' demo_query)) = []
   \<and> length (filter is_fetch
       (snd (authorized_route demo_cfg (demo_env True demo_failure 0) 7 ''demo'' demo_query))) = 1
   \<and> response_ok demo_html \<and> \<not> json_content_type demo_html
   \<and> fst (authorized_route demo_cfg (demo_env True demo_html 0) 7 ''demo'' demo_query) =
       Thrown (Error ''200: OK: <html></html>'')
   \<and> filter is_storage_set
       (snd (authorized_route demo_cfg (demo_env True demo_html 0) 7 ''demo'' demo_query)) = []
   \<and> length (filter is_fetch
       (snd (authorized_route demo_cfg (demo_env True demo_html 0) 7 ''demo'' demo_query))) = 1"
proof -
  have h1: "map_of (profiles demo_cfg) ''demo'' =
              Some \<lparr>scope = [''read''], provider = demo_provider\<rparr>"
    by (simp add: demo_cfg_def)
  have h2: "state_check (demo_env True resp 0) 7 ''demo'' (state demo_query)" for resp
    by (simp add: demo_env_def)
  have h3: "resp =
              fetch (demo_env True resp 0)
                (url (token (provider \<lparr>scope = [''read''], provider = demo_provider\<rparr>)))
                (token_request demo_cfg
                   (provider \<lparr>scope = [''read''], provider = demo_provider\<rparr>) ''demo''
                   (code demo_query))" for resp
    by (simp add: demo_env_def)
  have s: "\<not> response_ok demo_failure" "json_content_type demo_failure"
    by (simp_all add: response_ok_def json_content_type_def demo_failure_def)
  have t: "response_ok demo_html" "\<not> json_content_type demo_html"
    by (simp_all add: response_ok_def json_content_type_def demo_html_def)
  have h4: "\<not> response_ok demo_failure \<or> \<not> json_content_type demo_failure"
    using s by simp
  have h5: "\<not> response_ok demo_html \<or> \<not> json_content_type demo_html"
    using t by simp
  have m: "string_of_nat (status demo_failure) @ '': '' @ statusText demo_failure @ '': ''
             @ body_text demo_failure = ''401: Unauthorized: bad_verification_code''"
    by (simp add: demo_failure_def string_of_nat_401)
  have n: "string_of_nat (status demo_html) @ '': '' @ statusText demo_html @ '': ''
             @ body_text demo_html = ''200: OK: <html></html>''"
    by (simp add: demo_html_def string_of_nat_200)
  have a: "fst (authorized_route demo_cfg (demo_env True demo_failure 0) 7 ''demo'' demo_query) =
             Thrown (Error ''401: Unauthorized: bad_verification_code'')
           \<and> filter is_storage_set
               (snd (authorized_route demo_cfg (demo_env True demo_failure 0) 7 ''demo''
                  demo_query)) = []
           \<and> length (filter is_fetch
               (snd (authorized_route demo_cfg (demo_env True demo_failure 0) 7 ''demo''
                  demo_query))) = 1"
    using m exchange_failure_is_fatal [OF h1 h2 h3 h4] by simp
  have b: "fst (authorized_route demo_cfg (demo_env True demo_html 0) 7 ''demo'' demo_query) =
             Thrown (Error ''200: OK: <html></html>'')
           \<and> filter is_storage_set
               (snd (authorized_route demo_cfg (demo_env True demo_html 0) 7 ''demo''
                  demo_query)) = []
           \<and> length (filter is_fetch
               (snd (authorized_route demo_cfg (demo_env True demo_html 0) 7 ''demo''
                  demo_query))) = 1"
    using n exchange_failure_is_fatal [OF h1 h2 h3 h5] by simp
  show ?thesis
    using h1 h2 [of demo_failure] s t a b by blast
qed

text \<open>
  C3. After a successful exchange (profile configured, state accepted, status in
  200..299, JSON content type, a body that parses), the handler redirects to the
  configured path and the one record it hands to the token store's \<^verbatim>\<open>set\<close> has
  \<^verbatim>\<open>expires_in\<close> as the response gave it, or 3600 when the response had none, and
  \<^verbatim>\<open>created_at\<close> equal to \<^verbatim>\<open>Date.now() / 1000\<close>, whatever \<^verbatim>\<open>created_at\<close> the response
  carried.
\<close>

theorem stored_token_defaults:
  assumes "map_of (profiles cfg) name = Some p"
    and "state_check env req name (state q)"
    and "resp = fetch env (url (token (provider p))) (token_request cfg (provider p) name (code q))"
    and "response_ok resp" and "json_content_type resp"
    and "body_json resp = Some j"
  shows "\<exists>tok. authorized_route cfg env req name q =
                 (Returned (Redirect (redirect_path cfg)),
                  [StateCheck req name (state q),
                   Fetch (url (token (provider p))) (token_request cfg (provider p) name (code q)),
                   StorageSet req name tok])
               \<and> expires_in tok = (case resp_expires_in j of None \<Rightarrow> 3600 | Some e \<Rightarrow> e)
               \<and> created_at tok = date_now env / 1000
               \<and> access_token tok = resp_access_token j"
proof -
  have r: "resolveProvider cfg name = Profile p"
    using assms(1) by (rule resolve_own)
  have "authorized_route cfg env req name q =
          (Returned (Redirect (redirect_path cfg)),
           [StateCheck req name (state q),
            Fetch (url (token (provider p))) (token_request cfg (provider p) name (code q)),
            StorageSet req name (stamp_token (date_now env) j)])"
    using assms(2,4,5,6) unfolding assms(3) by (simp add: authorized_route_def r Let_def)
  then show ?thesis
    by (simp add: stamp_token_def)
qed

theorem stored_token_defaults_witness:
  "map_of (profiles demo_cfg) ''demo'' = Some \<lparr>scope = [''read''], provider = demo_provider\<rparr>
   \<and> state_check (demo_env True demo_success 1700000000500) 7 ''demo'' (state demo_query)
   \<and> response_ok demo_success \<and> json_content_type demo_success
   \<and> body_json demo_success = Some demo_json
   \<and> resp_expires_in demo_json = None \<and> resp_created_at demo_json = Some 5
   \<and> (\<exists>tok. snd (authorized_route demo_cfg (demo_env True demo_success 1700000000500) 7
                   ''demo'' demo_query) ! 2 = StorageSet 7 ''demo'' tok
            \<and> expires_in tok = 3600 \<and> created_at tok = 3400000001 / 2)"
proof -
  have h1: "map_of (profiles demo_cfg) ''demo'' =
              Some \<lparr>scope = [''read''], provider = demo_provider\<rparr>"
    by (simp add: demo_cfg_def)
  have h2: "state_check (demo_env True demo_success 1700000000500) 7 ''demo'' (state demo_query)"
    by (simp add: demo_env_def)
  have h3: "demo_success =
              fetch (demo_env True demo_success 1700000000500)
                (url (token (provider \<lparr>scope = [''read''], provider = demo_provider\<rparr>)))
                (token_request demo_cfg
                   (provider \<lparr>scope = [''read''], provider = demo_provider\<rparr>) ''demo''
                   (code demo_query))"
    by (simp add: demo_env_def)
  have h4: "response_ok demo_success"
    by (simp add: response_ok_def demo_success_def)
  have h5: "json_content_type demo_success"
    by (simp add: json_content_type_def demo_success_def)
  have h6: "body_json demo_success = Some demo_json"
    by (simp add: demo_success_def)
  have j: "resp_expires_in demo_json = None" "resp_created_at demo_json = Some 5"
    by (simp_all add: demo_json_def)
  have d: "date_now (demo_env True demo_success 1700000000500) / 1000 = 3400000001 / 2"
    by (simp add: demo_env_def)
  from stored_token_defaults [OF h1 h2 h3 h4 h5 h6]
  obtain tok where t:
    "authorized_route demo_cfg (demo_env True demo_success 1700000000500) 7 ''demo'' demo_query =
       (Returned (Redirect (redirect_path demo_cfg)),
        [StateCheck 7 ''demo'' (state demo_query),
         Fetch (url (token (provider \<lparr>scope = [''read''], provider = demo_provider\<rparr>)))
           (token_request demo_cfg (provider \<lparr>scope = [''read''], provider = demo_provider\<rparr>)
              ''demo'' (code demo_query)),
         StorageSet 7 ''demo'' tok])"
    "expires_in tok = (case resp_expires_in demo_json of None \<Rightarrow> 3600 | Some e \<Rightarrow> e)"
    "created_at tok = date_now (demo_env True demo_success 1700000000500) / 1000"
    by blast
  have "snd (authorized_route demo_cfg (demo_env True demo_success 1700000000500) 7
               ''demo'' demo_query) ! 2 = StorageSet 7 ''demo'' tok
        \<and> expires_in tok = 3600 \<and> created_at tok = 3400000001 / 2"
    using t j d by simp
  then show ?thesis
    using h1 h2 h4 h5 h6 j by blast
qed

text \<open>
  C4. The validity check answers false for an absent token; for a present one it answers
  true exactly when the clock reading is strictly below \<^verbatim>\<open>created_at + expires_in\<close>, so
  at a reading equal to that sum the token is invalid. The capability calls it with the
  clock in seconds on what the token store returned.
\<close>

theorem token_validity:
  "isTokenValid now None = False
   \<and> isTokenValid now (Some tok) = (now < created_at tok + expires_in tok)
   \<and> isTokenValid (created_at tok + expires_in tok) (Some tok) = False
   \<and> token_ok env req profile =
       isTokenValid (date_now env / 1000) (storage_get env req profile)"
  by (simp add: isTokenValid_def token_ok_def)

text \<open>
  A name that is neither an own key of the profiles object nor inherited by it gets the
  404 response from all three handlers, and no collaborator is called.
\<close>

lemma unknown_name_not_found:
  assumes "\<not> js_in name cfg"
  shows "login_route cfg env req name = (Returned (Response [] 404 ''Not Found''), [])"
    and "authorized_route cfg env req name q = (Returned (Response [] 404 ''Not Found''), [])"
    and "logout_route cfg env req name = (Returned (Response [] 404 ''Not Found''), [])"
  using assms
  by (simp_all add: login_route_def authorized_route_def logout_route_def resolveProvider_def)

text \<open>
  C5. The claim asks a 404 and no store call for every name that is not a key of the
  configured profiles. The handlers test \<^verbatim>\<open>name in globalProfiles\<close>, which is also true
  of inherited property names: for the name \<^verbatim>\<open>toString\<close>, which is no key of the
  configuration, no handler answers 404; the logout handler calls the token store's
  \<^verbatim>\<open>delete\<close> and redirects, the callback handler calls the state store's \<^verbatim>\<open>check\<close>,
  and the login handler throws a \<^verbatim>\<open>TypeError\<close>.
\<close>

theorem inherited_name_is_resolved:
  "''toString'' \<notin> set (map fst (profiles demo_cfg))
   \<and> logout_route demo_cfg env req ''toString'' =
       (Returned (Redirect ''/''), [StorageDelete req ''toString''])
   \<and> snd (authorized_route demo_cfg env req ''toString'' q) =
       [StateCheck req ''toString'' (state q)]
   \<and> login_route demo_cfg env req ''toString'' = (Thrown TypeError, [])"
proof -
  have r: "resolveProvider demo_cfg ''toString'' = Inherited"
    by (simp add: resolveProvider_def js_in_def demo_cfg_def object_prototype_keys_def)
  have d: "redirect_path demo_cfg = ''/''"
    by (simp add: redirect_path_def or_default_def demo_cfg_def)
  have k: "''toString'' \<notin> set (map fst (profiles demo_cfg))"
    by (simp add: demo_cfg_def)
  show ?thesis
    using k by (simp add: logout_route_def authorized_route_def login_route_def r d)
qed

theorem inherited_name_is_resolved_witness:
  "logout_route demo_cfg (demo_env True demo_success 0) 7 ''toString'' =
     (Returned (Redirect ''/''), [StorageDelete 7 ''toString''])
   \<and> snd (authorized_route demo_cfg (demo_env True demo_success 0) 7 ''toString'' demo_query) =
       [StateCheck 7 ''toString'' ''S'']
   \<and> login_route demo_cfg (demo_env True demo_success 0) 7 ''toString'' = (Thrown TypeError, [])"
  using inherited_name_is_resolved [of "demo_env True demo_success 0" 7 demo_query]
  by (simp add: demo_query_def)

text \<open>
  The engine's own \<^verbatim>\<open>authParams\<close> and \<^verbatim>\<open>tokenParams\<close> carry the same callback URI.
\<close>

lemma own_redirect_uri:
  "authParams cfg prov name st ''redirect_uri'' = Some (PString (buildRedirectUri cfg name))"
  "tokenParams cfg prov name c ''redirect_uri'' = Some (PString (buildRedirectUri cfg name))"
  by (simp_all add: authParams_def tokenParams_def)

text \<open>
  Every URI built in external form is the protocol, \<^verbatim>\<open>://\<close>, the host and the path
  template with the name filled in.
\<close>

lemma external_uris:
  "buildLoginUri cfg name True =
     protocol cfg @ ''://'' @ host_name cfg @ js_replace (login_path cfg) '':name'' name"
  "buildLogoutUri cfg name True =
     protocol cfg @ ''://'' @ host_name cfg @ js_replace (logout_path cfg) '':name'' name"
  "buildRedirectUri cfg name =
     protocol cfg @ ''://'' @ host_name cfg @ js_replace (authorized_path cfg) '':name'' name"
  by (simp_all add: buildLoginUri_def buildLogoutUri_def buildRedirectUri_def buildUri_def)

lemma custom_cfg_paths:
  "host_name custom_cfg = ''auth.example.com''"
  "protocol custom_cfg = ''https''"
  "login_path custom_cfg = ''/in/:name''"
  "logout_path custom_cfg = ''/out/:name''"
  "authorized_path custom_cfg = ''/cb/:name''"
  "redirect_path custom_cfg = ''/home''"
  by (simp_all add: host_name_def protocol_def login_path_def logout_path_def
      authorized_path_def redirect_path_def or_default_def custom_cfg_def)

lemma demo_env_fields:
  "state_generate (demo_env chk resp now_ms) r n = ''S''"
  "state_check (demo_env chk resp now_ms) r n st = chk"
  "fetch (demo_env chk resp now_ms) u i = resp"
  "date_now (demo_env chk resp now_ms) = now_ms"
  "buildUrl (demo_env chk resp now_ms) u ps sc =
     (case ps ''redirect_uri'' of Some (PString x) \<Rightarrow> u @ ''?redirect_uri='' @ x | _ \<Rightarrow> u)"
  by (simp_all add: demo_env_def)

text \<open>
  C6, as stated, fails: the provider's extra parameters are spread over the engine's, so
  a provider whose token parameters define \<^verbatim>\<open>redirect_uri\<close> sends that value in the
  token request, while the authorization URL got the callback URI. So it is for the
  profile \<^verbatim>\<open>hub\<close>: the login handler redirects with the callback URI, and the body of
  the callback handler's \<^verbatim>\<open>fetch\<close> carries the provider's value.
\<close>

theorem redirect_uri_override_counterexample:
  "token_body_params demo_cfg override_provider ''demo'' ''abc123'' ''redirect_uri'' =
     Some (PString ''https://elsewhere/cb'')
   \<and> login_url_params demo_cfg override_provider ''demo'' ''S'' ''redirect_uri'' =
     Some (PString ''http://localhost:3000/login/demo/authorized'')
   \<and> fst (login_route custom_cfg (demo_env True demo_success 0) 7 ''hub'') =
     Returned (Redirect ''https://p/authorize?redirect_uri=https://auth.example.com/cb/hub'')
   \<and> (\<exists>init. snd (authorized_route custom_cfg (demo_env True demo_success 0) 7 ''hub''
                     demo_query) ! 1 = Fetch ''https://p/token'' init
              \<and> body init ''redirect_uri'' = Some (PString ''https://elsewhere/cb''))"
proof -
  have h: "host_name demo_cfg = ''localhost:3000''"
    by (simp add: host_name_def or_default_def demo_cfg_def)
  have a: "authorized_path demo_cfg = ''/login/:name/authorized''"
    by (simp add: authorized_path_def or_default_def demo_cfg_def)
  have f: "find_first '':name'' ''/login/:name/authorized'' = Some (''/login/'', ''/authorized'')"
    by simp
  have u: "buildRedirectUri demo_cfg ''demo'' = ''http://localhost:3000/login/demo/authorized''"
    by (simp add: buildRedirectUri_def buildUri_def protocol_def js_replace_def h a f)
  have v: "buildRedirectUri custom_cfg ''hub'' = ''https://auth.example.com/cb/hub''"
    by (simp add: external_uris custom_cfg_paths js_replace_def)
  have r: "resolveProvider custom_cfg ''hub'' = Profile \<lparr>scope = [], provider = override_provider\<rparr>"
    by (rule resolve_own) (simp add: custom_cfg_def)
  have o: "url (auth override_provider) = ''https://p/authorize''"
    "url (token override_provider) = ''https://p/token''"
    "params (auth override_provider) = Map.empty"
    "params (token override_provider) ''redirect_uri'' = Some (PString ''https://elsewhere/cb'')"
    by (simp_all add: override_provider_def)
  have l: "login_url_params custom_cfg override_provider ''hub'' ''S'' ''redirect_uri'' =
             Some (PString ''https://auth.example.com/cb/hub'')"
    by (simp add: login_url_params_def own_redirect_uri v o)
  have t: "token_body_params custom_cfg override_provider ''hub'' c ''redirect_uri'' =
             Some (PString ''https://elsewhere/cb'')" for c
    by (simp add: token_body_params_def o)
  have 1: "fst (login_route custom_cfg (demo_env True demo_success 0) 7 ''hub'') =
             Returned (Redirect ''https://p/authorize?redirect_uri=https://auth.example.com/cb/hub'')"
    by (simp add: login_route_def r demo_env_fields l o Let_def)
  have s: "response_ok demo_success" "json_content_type demo_success"
    "body_json demo_success = Some demo_json"
    by (simp_all add: response_ok_def json_content_type_def demo_success_def)
  have "snd (authorized_route custom_cfg (demo_env True demo_success 0) 7 ''hub'' demo_query) ! 1 =
          Fetch ''https://p/token'' (token_request custom_cfg override_provider ''hub'' (code demo_query))"
    by (simp add: authorized_route_def r demo_env_fields s o Let_def)
  moreover have "body (token_request custom_cfg override_provider ''hub'' (code demo_query))
                   ''redirect_uri'' = Some (PString ''https://elsewhere/cb'')"
    by (simp add: token_request_def t)
  ultimately have 2: "\<exists>init. snd (authorized_route custom_cfg (demo_env True demo_success 0) 7 ''hub''
                     demo_query) ! 1 = Fetch ''https://p/token'' init
              \<and> body init ''redirect_uri'' = Some (PString ''https://elsewhere/cb'')"
    by blast
  have 3: "token_body_params demo_cfg override_provider ''demo'' ''abc123'' ''redirect_uri'' =
             Some (PString ''https://elsewhere/cb'')
           \<and> login_url_params demo_cfg override_provider ''demo'' ''S'' ''redirect_uri'' =
             Some (PString ''http://localhost:3000/login/demo/authorized'')"
    by (simp add: token_body_params_def login_url_params_def own_redirect_uri u
        override_provider_def)
  show ?thesis
    using 1 2 3 by blast
qed

text \<open>
  C6, amended. For a configured profile name whose provider's extra authorization
  parameters and extra token parameters agree on \<^verbatim>\<open>redirect_uri\<close> (the same value, or
  none in both): the login handler redirects to the URL \<^verbatim>\<open>buildUrl\<close> makes of some
  parameters, the callback handler, once the state is accepted, sends a \<^verbatim>\<open>fetch\<close>
  whose body has the same \<^verbatim>\<open>redirect_uri\<close> as those parameters, and that value is the
  provider's own one if it has one, else the external callback URI of the profile name.
\<close>

theorem redirect_uri_matches:
  assumes "map_of (profiles cfg) name = Some p"
    and "state_check env req name (state q)"
    and "params (auth (provider p)) ''redirect_uri'' = params (token (provider p)) ''redirect_uri''"
  shows "\<exists>ps init rest.
           login_route cfg env req name =
             (Returned (Redirect (buildUrl env (url (auth (provider p))) ps (scope p))),
              [StateGenerate req name])
         \<and> snd (authorized_route cfg env req name q) =
             StateCheck req name (state q) # Fetch (url (token (provider p))) init # rest
         \<and> body init ''redirect_uri'' = ps ''redirect_uri''
         \<and> ps ''redirect_uri'' =
             (case params (auth (provider p)) ''redirect_uri'' of
                None \<Rightarrow> Some (PString (protocol cfg @ ''://'' @ host_name cfg
                                        @ js_replace (authorized_path cfg) '':name'' name))
              | Some v \<Rightarrow> Some v)"
proof -
  let ?ps = "login_url_params cfg (provider p) name (state_generate env req name)"
  let ?init = "token_request cfg (provider p) name (code q)"
  have r: "resolveProvider cfg name = Profile p"
    using assms(1) by (rule resolve_own)
  have 1: "login_route cfg env req name =
             (Returned (Redirect (buildUrl env (url (auth (provider p))) ?ps (scope p))),
              [StateGenerate req name])"
    by (simp add: login_route_def r Let_def)
  have 2: "\<exists>rest. snd (authorized_route cfg env req name q) =
             StateCheck req name (state q) # Fetch (url (token (provider p))) ?init # rest"
    using assms(2) by (simp add: authorized_route_def r Let_def split: option.split)
  have 3: "?ps ''redirect_uri'' =
             (case params (auth (provider p)) ''redirect_uri'' of
                None \<Rightarrow> Some (PString (protocol cfg @ ''://'' @ host_name cfg
                                        @ js_replace (authorized_path cfg) '':name'' name))
              | Some v \<Rightarrow> Some v)"
    by (simp add: login_url_params_def map_add_def own_redirect_uri external_uris
        split: option.split)
  have 4: "body ?init ''redirect_uri'' = ?ps ''redirect_uri''"
    using assms(3)
    by (simp add: token_request_def token_body_params_def login_url_params_def map_add_def
        own_redirect_uri split: option.split)
  from 1 2 3 4 show ?thesis
    by blast
qed

theorem redirect_uri_matches_witness:
  "map_of (profiles custom_cfg) ''demo'' = Some \<lparr>scope = [''read''], provider = demo_provider\<rparr>
   \<and> state_check (demo_env True demo_success 0) 7 ''demo'' (state demo_query)
   \<and> params (auth demo_provider) ''redirect_uri'' = params (token demo_provider) ''redirect_uri''
   \<and> fst (login_route custom_cfg (demo_env True demo_success 0) 7 ''demo'') =
       Returned (Redirect ''https://p/authorize?redirect_uri=https://auth.example.com/cb/demo'')
   \<and> (\<exists>init rest.
         snd (authorized_route custom_cfg (demo_env True demo_success 0) 7 ''demo'' demo_query) =
           StateCheck 7 ''demo'' ''S'' # Fetch ''https://p/token'' init # rest
       \<and> body init ''redirect_uri'' = Some (PString ''https://auth.example.com/cb/demo''))"
proof -
  let ?p = "\<lparr>scope = [''read''], provider = demo_provider\<rparr>"
  let ?env = "demo_env True demo_success 0"
  have h1: "map_of (profiles custom_cfg) ''demo'' = Some ?p"
    by (simp add: custom_cfg_def)
  have h2: "state_check ?env 7 ''demo'' (state demo_query)"
    by (simp add: demo_env_fields)
  have h3: "params (auth (provider ?p)) ''redirect_uri'' =
              params (token (provider ?p)) ''redirect_uri''"
    by (simp add: demo_provider_def)
  have d: "url (auth demo_provider) = ''https://p/authorize''"
    "url (token demo_provider) = ''https://p/token''"
    "params (auth demo_provider) ''redirect_uri'' = None"
    "params (token demo_provider) ''redirect_uri'' = None"
    by (simp_all add: demo_provider_def)
  have c: "protocol custom_cfg @ ''://'' @ host_name custom_cfg
             @ js_replace (authorized_path custom_cfg) '':name'' ''demo'' =
           ''https://auth.example.com/cb/demo''"
    by (simp add: custom_cfg_paths js_replace_def)
  have q: "state demo_query = ''S''"
    by (simp add: demo_query_def)
  from redirect_uri_matches [OF h1 h2 h3]
  obtain ps init rest where
    l: "login_route custom_cfg ?env 7 ''demo'' =
          (Returned (Redirect (buildUrl ?env (url (auth (provider ?p))) ps (scope ?p))),
           [StateGenerate 7 ''demo''])"
    and a: "snd (authorized_route custom_cfg ?env 7 ''demo'' demo_query) =
          StateCheck 7 ''demo'' (state demo_query) # Fetch (url (token (provider ?p))) init # rest"
    and b: "body init ''redirect_uri'' = ps ''redirect_uri''"
    and v: "ps ''redirect_uri'' =
          (case params (auth (provider ?p)) ''redirect_uri'' of
             None \<Rightarrow> Some (PString (protocol custom_cfg @ ''://'' @ host_name custom_cfg
                                     @ js_replace (authorized_path custom_cfg) '':name'' ''demo''))
           | Some v \<Rightarrow> Some v)"
    by blast
  from v have v': "ps ''redirect_uri'' = Some (PString ''https://auth.example.com/cb/demo'')"
    using c by (simp add: d)
  have 1: "fst (login_route custom_cfg ?env 7 ''demo'') =
             Returned (Redirect ''https://p/authorize?redirect_uri=https://auth.example.com/cb/demo'')"
    by (simp add: l demo_env_fields v' d)
  have 2: "\<exists>init rest.
         snd (authorized_route custom_cfg ?env 7 ''demo'' demo_query) =
           StateCheck 7 ''demo'' ''S'' # Fetch ''https://p/token'' init # rest
       \<and> body init ''redirect_uri'' = Some (PString ''https://auth.example.com/cb/demo'')"
    using a b v' by (simp add: q d)
  have h3': "params (auth demo_provider) ''redirect_uri'' = params (token demo_provider) ''redirect_uri''"
    by (simp add: d)
  show ?thesis
    using h1 h2 h3' 1 2 by blast
qed

text \<open>
  The trace of \<^verbatim>\<open>authorized(...)\<close> holds one lookup for each profile up to and including
  the first whose token is not valid.
\<close>

lemma ctx_authorized_run:
  "ctx_authorized env req ps =
     (list_all (token_ok env req) ps,
      map (StorageGet req)
        (takeWhile (token_ok env req) ps @ take 1 (dropWhile (token_ok env req) ps)))"
  by (induction ps) (simp_all split: prod.split)

text \<open>
  C7. \<^verbatim>\<open>authorized(...)\<close> answers true exactly when the stored token of every named
  profile is valid. It stops at the first profile whose token is missing or invalid: when
  the names are \<open>pre @ p # post\<close> with every token of \<open>pre\<close> valid and that of \<open>p\<close>
  not, the answer is false and the token store was asked for \<open>pre\<close> and \<open>p\<close> only. When
  all are valid, the store was asked once for each name, in order.
\<close>

theorem authorized_all_valid:
  "fst (ctx_authorized env req ps) = (\<forall>p \<in> set ps. token_ok env req p)
   \<and> (\<forall>pre p post. ps = pre @ p # post \<and> (\<forall>x \<in> set pre. token_ok env req x)
          \<and> \<not> token_ok env req p
        \<longrightarrow> ctx_authorized env req ps = (False, map (StorageGet req) (pre @ [p])))
   \<and> ((\<forall>p \<in> set ps. token_ok env req p)
        \<longrightarrow> ctx_authorized env req ps = (True, map (StorageGet req) ps))"
proof (intro conjI allI impI)
  show "fst (ctx_authorized env req ps) = (\<forall>p \<in> set ps. token_ok env req p)"
    by (simp add: ctx_authorized_run list_all_iff)
next
  fix pre p post
  assume a: "ps = pre @ p # post \<and> (\<forall>x \<in> set pre. token_ok env req x) \<and> \<not> token_ok env req p"
  then have t: "takeWhile (token_ok env req) ps = pre"
    by (simp add: takeWhile_append2)
  from a have d: "dropWhile (token_ok env req) ps = p # post"
    by (simp add: dropWhile_append2)
  from a have "\<not> list_all (token_ok env req) ps"
    by (simp add: list_all_iff)
  then show "ctx_authorized env req ps = (False, map (StorageGet req) (pre @ [p]))"
    by (simp add: ctx_authorized_run t d)
next
  assume a: "\<forall>p \<in> set ps. token_ok env req p"
  then have t: "takeWhile (token_ok env req) ps = ps"
    by simp
  from a have d: "dropWhile (token_ok env req) ps = []"
    by simp
  show "ctx_authorized env req ps = (True, map (StorageGet req) ps)"
    unfolding ctx_authorized_run t d using a by (simp add: list_all_iff)
qed

lemma demo_token_ok:
  "token_ok (demo_env True demo_success 1700000001000) r ''demo''"
  "\<not> token_ok (demo_env True demo_success 1700000001000) r ''other''"
  by (simp_all add: token_ok_def isTokenValid_def demo_env_def demo_token_def)

theorem authorized_all_valid_witness:
  "ctx_authorized (demo_env True demo_success 1700000001000) 7 [''demo'', ''other'', ''demo''] =
     (False, [StorageGet 7 ''demo'', StorageGet 7 ''other''])
   \<and> ctx_authorized (demo_env True demo_success 1700000001000) 7 [''demo'', ''demo''] =
     (True, [StorageGet 7 ''demo'', StorageGet 7 ''demo''])"
proof -
  let ?env = "demo_env True demo_success 1700000001000"
  have s: "[''demo'', ''other'', ''demo''] = [''demo''] @ ''other'' # [''demo'']"
    by simp
  have p: "\<forall>x \<in> set [''demo'']. token_ok ?env 7 x"
    by (simp add: demo_token_ok)
  have n: "\<not> token_ok ?env 7 ''other''"
    by (rule demo_token_ok)
  have a: "\<forall>x \<in> set [''demo'', ''demo'']. token_ok ?env 7 x"
    by (simp add: demo_token_ok)
  have "ctx_authorized ?env 7 [''demo'', ''other'', ''demo''] =
          (False, map (StorageGet 7) ([''demo''] @ [''other'']))"
    using authorized_all_valid [of ?env 7 "[''demo'', ''other'', ''demo'']"] s p n by blast
  moreover have "ctx_authorized ?env 7 [''demo'', ''demo''] =
          (True, map (StorageGet 7) [''demo'', ''demo''])"
    using authorized_all_valid [of ?env 7 "[''demo'', ''demo'']"] a by blast
  ultimately show ?thesis
    by simp
qed

text \<open>The own properties of the result object of \<^verbatim>\<open>profiles(...)\<close> after the loop.\<close>

lemma foldl_assign_own:
  "own_entries (foldl (\<lambda>res k. assign_entry res k (f k)) r ks) =
     (\<lambda>k. if k \<in> set ks \<and> k \<noteq> ''__proto__'' then Some (f k) else own_entries r k)"
  by (induction ks arbitrary: r) (auto simp add: assign_entry_def fun_eq_iff)

text \<open>
  \<^verbatim>\<open>profiles()\<close> with no argument calls no collaborator, and the own properties of its
  result are the configured names other than \<^verbatim>\<open>__proto__\<close>, each with the external
  login and logout URI of its name.
\<close>

lemma profiles_entries:
  "snd (ctx_profiles cfg [] :: profile_url_map \<times> 'r call list) = []"
  "own_entries (fst (ctx_profiles cfg [] :: profile_url_map \<times> 'r call list)) =
     (\<lambda>k. if k \<in> set (map fst (profiles cfg)) \<and> k \<noteq> ''__proto__''
          then Some \<lparr>login_uri = protocol cfg @ ''://'' @ host_name cfg
                                   @ js_replace (login_path cfg) '':name'' k,
                      logout_uri = protocol cfg @ ''://'' @ host_name cfg
                                   @ js_replace (logout_path cfg) '':name'' k\<rparr>
          else None)"
  unfolding ctx_profiles_def Let_def
  by (simp_all add: foldl_assign_own external_uris fun_eq_iff)

lemma profiles_custom:
  "own_entries (fst (ctx_profiles custom_cfg [] :: profile_url_map \<times> 'r call list)) ''demo'' =
     Some \<lparr>login_uri = ''https://auth.example.com/in/demo'',
           logout_uri = ''https://auth.example.com/out/demo''\<rparr>"
  "own_entries (fst (ctx_profiles custom_cfg [] :: profile_url_map \<times> 'r call list)) ''hub'' =
     Some \<lparr>login_uri = ''https://auth.example.com/in/hub'',
           logout_uri = ''https://auth.example.com/out/hub''\<rparr>"
  "dom (own_entries (fst (ctx_profiles custom_cfg [] :: profile_url_map \<times> 'r call list))) =
     {''demo'', ''hub''}"
proof -
  have k: "set (map fst (profiles custom_cfg)) = {''demo'', ''hub''}"
    by (simp add: custom_cfg_def)
  show "own_entries (fst (ctx_profiles custom_cfg [] :: profile_url_map \<times> 'r call list)) ''demo'' =
     Some \<lparr>login_uri = ''https://auth.example.com/in/demo'',
           logout_uri = ''https://auth.example.com/out/demo''\<rparr>"
    unfolding profiles_entries k by (simp add: custom_cfg_paths js_replace_def)
  show "own_entries (fst (ctx_profiles custom_cfg [] :: profile_url_map \<times> 'r call list)) ''hub'' =
     Some \<lparr>login_uri = ''https://auth.example.com/in/hub'',
           logout_uri = ''https://auth.example.com/out/hub''\<rparr>"
    unfolding profiles_entries k by (simp add: custom_cfg_paths js_replace_def)
  show "dom (own_entries (fst (ctx_profiles custom_cfg [] :: profile_url_map \<times> 'r call list))) =
     {''demo'', ''hub''}"
    unfolding profiles_entries k by (auto simp add: dom_def split: if_splits)
qed

text \<open>
  C8. The claim, like the comment on \<^verbatim>\<open>profiles\<close> and its return type, wants an entry
  for every configured profile name. The code fills an object literal by assignment:
  with the profiles \<^verbatim>\<open>__proto__\<close> and \<^verbatim>\<open>demo\<close> configured, \<^verbatim>\<open>profiles()\<close> returns an
  object whose only own entry is that of \<^verbatim>\<open>demo\<close>; the URIs of \<^verbatim>\<open>__proto__\<close> went into
  the object's prototype.
\<close>

theorem proto_profile_has_no_entry:
  "''__proto__'' \<in> set (map fst (profiles proto_cfg))
   \<and> own_entries (fst (ctx_profiles proto_cfg [] :: profile_url_map \<times> nat call list))
       ''__proto__'' = None
   \<and> dom (own_entries (fst (ctx_profiles proto_cfg [] :: profile_url_map \<times> nat call list))) =
       {''demo''}
   \<and> proto_entry (fst (ctx_profiles proto_cfg [] :: profile_url_map \<times> nat call list)) =
       Some \<lparr>login_uri = ''http://localhost:3000/login/__proto__'',
             logout_uri = ''http://localhost:3000/logout/__proto__''\<rparr>"
proof -
  have k: "map fst (profiles proto_cfg) = [''__proto__'', ''demo'']"
    by (simp add: proto_cfg_def)
  have h: "host_name proto_cfg = ''localhost:3000''" "protocol proto_cfg = ''http''"
    "login_path proto_cfg = ''/login/:name''" "logout_path proto_cfg = ''/logout/:name''"
    by (simp_all add: host_name_def protocol_def login_path_def logout_path_def or_default_def
        proto_cfg_def)
  have e: "own_entries (fst (ctx_profiles proto_cfg [] :: profile_url_map \<times> nat call list))
             ''__proto__'' = None"
    unfolding profiles_entries by simp
  have d: "dom (own_entries (fst (ctx_profiles proto_cfg [] :: profile_url_map \<times> nat call list))) =
             {''demo''}"
    unfolding profiles_entries k by (auto simp add: dom_def split: if_splits)
  have p: "proto_entry (fst (ctx_profiles proto_cfg [] :: profile_url_map \<times> nat call list)) =
             Some \<lparr>login_uri = ''http://localhost:3000/login/__proto__'',
                   logout_uri = ''http://localhost:3000/logout/__proto__''\<rparr>"
    by (simp add: ctx_profiles_def k assign_entry_def external_uris h js_replace_def)
  show ?thesis
    using e d p by (simp add: k)
qed

text \<open>
  C9. The claim, like the comment on the \<^verbatim>\<open>host\<close> parameter, gives \<^verbatim>\<open>http\<close> to the
  local loopback name and \<^verbatim>\<open>https\<close> to every other host. The code tests whether the
  host string starts with \<^verbatim>\<open>localhost\<close>: the host \<^verbatim>\<open>localhost.example.com\<close> does not
  denote the loopback name and gets \<^verbatim>\<open>http\<close>, in the protocol and in the external URIs;
  the host \<^verbatim>\<open>LOCALHOST:3000\<close> denotes it and gets \<^verbatim>\<open>https\<close>.
\<close>

theorem lookalike_host_gets_http:
  "host_name (demo_cfg\<lparr>host := Some ''localhost.example.com''\<rparr>) = ''localhost.example.com''
   \<and> \<not> denotes_loopback ''localhost.example.com''
   \<and> protocol (demo_cfg\<lparr>host := Some ''localhost.example.com''\<rparr>) = ''http''
   \<and> buildLoginUri (demo_cfg\<lparr>host := Some ''localhost.example.com''\<rparr>) ''demo'' True =
       ''http://localhost.example.com/login/demo''
   \<and> host_name (demo_cfg\<lparr>host := Some ''LOCALHOST:3000''\<rparr>) = ''LOCALHOST:3000''
   \<and> denotes_loopback ''LOCALHOST:3000''
   \<and> protocol (demo_cfg\<lparr>host := Some ''LOCALHOST:3000''\<rparr>) = ''https''"
proof -
  have h: "host_name (demo_cfg\<lparr>host := Some ''localhost.example.com''\<rparr>) =
             ''localhost.example.com''"
    by (simp add: host_name_def or_default_def)
  have u: "host_name (demo_cfg\<lparr>host := Some ''LOCALHOST:3000''\<rparr>) = ''LOCALHOST:3000''"
    by (simp add: host_name_def or_default_def)
  have p: "protocol (demo_cfg\<lparr>host := Some ''localhost.example.com''\<rparr>) = ''http''"
    by (simp add: h protocol_def)
  have q: "protocol (demo_cfg\<lparr>host := Some ''LOCALHOST:3000''\<rparr>) = ''https''"
    by (simp add: u protocol_def)
  have l: "login_path (demo_cfg\<lparr>host := Some ''localhost.example.com''\<rparr>) = ''/login/:name''"
    by (simp add: login_path_def or_default_def demo_cfg_def)
  have b: "buildLoginUri (demo_cfg\<lparr>host := Some ''localhost.example.com''\<rparr>) ''demo'' True =
             ''http://localhost.example.com/login/demo''"
    by (simp add: external_uris p h l js_replace_def)
  have n: "\<not> denotes_loopback ''localhost.example.com''"
    by (simp add: denotes_loopback_def lower_char_def)
  have d: "denotes_loopback ''LOCALHOST:3000''"
    by (simp add: denotes_loopback_def lower_char_def)
  show ?thesis
    using h u p q b n d by blast
qed

text \<open>
  C10. \<^verbatim>\<open>authorized()\<close> with no profile name answers true and makes no call to the token
  store.
\<close>

theorem authorized_no_profiles:
  "ctx_authorized env req [] = (True, [])"
  by simp

end
